theory Spec2Isabelle
  imports Main "HOL-Library.Word"
begin

section \<open>JavaScript strings\<close>

text \<open>
  A JavaScript string is a sequence of 16-bit code units. The regular expressions of
  \<^verbatim>\<open>parseVocabulary\<close> carry no \<^verbatim>\<open>u\<close> flag, so they match code unit by code unit.
\<close>

type_synonym char16 = "16 word"
type_synonym js_string = "char16 list"

text \<open>An ASCII literal of the source as a JavaScript string.\<close>

definition str :: "string \<Rightarrow> js_string" where
  "str s = map (\<lambda>c. of_nat (of_char c)) s"

subsection \<open>Character classes\<close>

text \<open>
  The class \<^verbatim>\<open>\s\<close> of ECMAScript, which is also the set that \<^verbatim>\<open>String.prototype.trim\<close>
  strips: TAB, LF, VT, FF, CR, SP, NBSP, the other space separators (U+1680,
  U+2000 to U+200A, U+202F, U+205F, U+3000), LS, PS and U+FEFF.
\<close>

definition isWhiteSpace :: "char16 \<Rightarrow> bool" where
  "isWhiteSpace c \<longleftrightarrow>
     c \<in> {0x09, 0x0A, 0x0B, 0x0C, 0x0D, 0x20, 0xA0, 0x1680, 0x2028, 0x2029, 0x202F,
          0x205F, 0x3000, 0xFEFF}
     \<or> (0x2000 \<le> c \<and> c \<le> 0x200A)"

text \<open>The class \<^verbatim>\<open>\w\<close>: \<^verbatim>\<open>[A-Za-z0-9_]\<close>.\<close>

definition isWordChar :: "char16 \<Rightarrow> bool" where
  "isWordChar c \<longleftrightarrow>
     (0x41 \<le> c \<and> c \<le> 0x5A) \<or> (0x61 \<le> c \<and> c \<le> 0x7A) \<or> (0x30 \<le> c \<and> c \<le> 0x39) \<or> c = 0x5F"

text \<open>The class \<^verbatim>\<open>[a-zA-Z]\<close>.\<close>

definition isLatin :: "char16 \<Rightarrow> bool" where
  "isLatin c \<longleftrightarrow> (0x61 \<le> c \<and> c \<le> 0x7A) \<or> (0x41 \<le> c \<and> c \<le> 0x5A)"

text \<open>The Japanese class of the source: Hiragana U+3040 to U+309F, Katakana U+30A0 to U+30FF and
  the ideographs U+4E00 to U+9FAF.\<close>

definition isJapanese :: "char16 \<Rightarrow> bool" where
  "isJapanese c \<longleftrightarrow>
     (0x3040 \<le> c \<and> c \<le> 0x309F) \<or> (0x30A0 \<le> c \<and> c \<le> 0x30FF) \<or> (0x4E00 \<le> c \<and> c \<le> 0x9FAF)"

subsection \<open>String methods\<close>

text \<open>\<^verbatim>\<open>s.trim()\<close>\<close>

definition trim :: "js_string \<Rightarrow> js_string" where
  "trim s = rev (dropWhile isWhiteSpace (rev (dropWhile isWhiteSpace s)))"

text \<open>
  \<^verbatim>\<open>s.substring(a, b)\<close> and \<^verbatim>\<open>s.substring(a)\<close>: the bounds are clamped to the length and
  swapped when \<^verbatim>\<open>a > b\<close>.
\<close>

definition substring :: "js_string \<Rightarrow> nat \<Rightarrow> nat \<Rightarrow> js_string" where
  "substring s a b = take (max a b - min a b) (drop (min a b) s)"

definition substring_from :: "js_string \<Rightarrow> nat \<Rightarrow> js_string" where
  "substring_from s a = drop a s"

text \<open>
  \<^verbatim>\<open>s.replace(re, '')\<close> for a regular expression with the \<^verbatim>\<open>g\<close> flag. The matcher
  \<open>m\<close> gives the length of the match of \<^verbatim>\<open>re\<close> that starts at the head of its argument,
  if there is one. The scan goes from left to right; after a match it resumes behind the
  match, and behind the next code unit when the match is empty.
\<close>

function replace_g :: "(js_string \<Rightarrow> nat option) \<Rightarrow> js_string \<Rightarrow> js_string" where
  "replace_g m [] = []"
| "replace_g m (c # cs) =
     (case m (c # cs) of
        None \<Rightarrow> c # replace_g m cs
      | Some n \<Rightarrow> if n = 0 then c # replace_g m cs else replace_g m (drop n (c # cs)))"
  by pat_completeness auto
termination
  by (relation "measure (\<lambda>(m, s). length s)") auto

text \<open>
  \<^verbatim>\<open>s.match(/[...]/)\<close> for a single character class without the \<^verbatim>\<open>g\<close> flag: the
  match object of the first code unit in the class, of which the source reads only
  \<^verbatim>\<open>index\<close>, or \<^verbatim>\<open>null\<close>.
\<close>

fun match_class :: "(char16 \<Rightarrow> bool) \<Rightarrow> js_string \<Rightarrow> nat option" where
  "match_class P [] = None"
| "match_class P (c # cs) = (if P c then Some 0 else map_option Suc (match_class P cs))"

text \<open>\<^verbatim>\<open>/[...]/.test(s)\<close> for a single character class.\<close>

definition test_class :: "(char16 \<Rightarrow> bool) \<Rightarrow> js_string \<Rightarrow> bool" where
  "test_class P s = list_ex P s"

text \<open>Reading \<^verbatim>\<open>.index\<close> of a match result raises a TypeError on \<^verbatim>\<open>null\<close>.\<close>

datatype js_error = TypeError

definition index_of :: "nat option \<Rightarrow> js_error + nat" where
  "index_of m = (case m of None \<Rightarrow> Inl TypeError | Some i \<Rightarrow> Inr i)"

section \<open>The regular expressions of the preprocessing\<close>

text \<open>\<^verbatim>\<open>:\/\/\S+\<close>, the part of the URL pattern behind the scheme.\<close>

definition matchUrlTail :: "js_string \<Rightarrow> nat option" where
  "matchUrlTail s =
     (if take 3 s = str ''://'' \<and> takeWhile (\<lambda>c. \<not> isWhiteSpace c) (drop 3 s) \<noteq> []
      then Some (3 + length (takeWhile (\<lambda>c. \<not> isWhiteSpace c) (drop 3 s)))
      else None)"

text \<open>
  \<^verbatim>\<open>/https?:\/\/\S+/\<close>: the greedy \<^verbatim>\<open>s?\<close> first takes an \<^verbatim>\<open>s\<close>, and the match
  falls back to the alternative without it when the rest fails.
\<close>

definition matchUrl :: "js_string \<Rightarrow> nat option" where
  "matchUrl s =
     (if take 4 s = str ''http''
      then (case (if take 1 (drop 4 s) = str ''s'' then matchUrlTail (drop 5 s) else None) of
              Some n \<Rightarrow> Some (5 + n)
            | None \<Rightarrow> map_option (\<lambda>n. 4 + n) (matchUrlTail (drop 4 s)))
      else None)"

text \<open>\<^verbatim>\<open>/@\w+/\<close> and \<^verbatim>\<open>/#\w+/\<close>: a sigil and the longest run of word characters.\<close>

definition matchSigil :: "char16 \<Rightarrow> js_string \<Rightarrow> nat option" where
  "matchSigil sigil s =
     (case s of
        [] \<Rightarrow> None
      | c # cs \<Rightarrow>
          if c = sigil \<and> takeWhile isWordChar cs \<noteq> []
          then Some (1 + length (takeWhile isWordChar cs))
          else None)"

definition matchMention :: "js_string \<Rightarrow> nat option" where
  "matchMention = matchSigil 0x40"

definition matchHashtag :: "js_string \<Rightarrow> nat option" where
  "matchHashtag = matchSigil 0x23"

text \<open>
  The first statement of every \<^verbatim>\<open>parseVocabulary\<close>:
  \<^verbatim>\<open>text.replace(/https?:\/\/\S+/g, '').replace(/@\w+/g, '').replace(/#\w+/g, '').trim()\<close>
\<close>

definition stripText :: "js_string \<Rightarrow> js_string" where
  "stripText text = replace_g matchHashtag (replace_g matchMention (replace_g matchUrl text))"

definition cleanText :: "js_string \<Rightarrow> js_string" where
  "cleanText text = trim (stripText text)"

section \<open>The extractor\<close>

record vocab =
  english :: js_string
  japanese :: js_string

text \<open>
  What a call can reach outside its argument: the module variable \<^verbatim>\<open>lastTweetId\<close> and
  the console, a list of the lines written so far.
\<close>

record world =
  lastTweetId :: "js_string option"
  console :: "js_string list"

definition console_log :: "js_string \<Rightarrow> world \<Rightarrow> world" where
  "console_log line w = w\<lparr>console := console w @ [line]\<rparr>"

text \<open>The three template literals of the logging calls.\<close>

definition msg_no_japanese :: "js_string \<Rightarrow> js_string" where
  "msg_no_japanese clean =
     [0x26A0, 0xFE0F] @ str ''  No Japanese characters found in: \"'' @ clean @ str ''\"''"

definition msg_parsed :: "js_string \<Rightarrow> js_string \<Rightarrow> js_string" where
  "msg_parsed englishPart japanesePart =
     [0x2705] @ str '' Parsed: \"'' @ englishPart @ str ''\" '' @ [0x2192] @ str '' \"''
       @ japanesePart @ str ''\"''"

definition msg_invalid :: "js_string \<Rightarrow> js_string \<Rightarrow> js_string" where
  "msg_invalid englishPart japanesePart =
     [0x26A0, 0xFE0F] @ str ''  Invalid format: english=\"'' @ englishPart
       @ str ''\", japanese=\"'' @ japanesePart @ str ''\"''"

text \<open>
  The first \<^verbatim>\<open>parseVocabulary\<close> (the earlier serverless handler) matches the cleaned text
  against three anchored patterns with two groups. Without the \<^verbatim>\<open>s\<close> flag the dot
  matches every code unit but the line terminators LF, CR, LS and PS.
\<close>

definition isLineTerminator :: "char16 \<Rightarrow> bool" where
  "isLineTerminator c \<longleftrightarrow> c \<in> {0x0A, 0x0D, 0x2028, 0x2029}"

text \<open>\<^verbatim>\<open>(.+)$\<close>: the second group is the whole rest, not empty and on one line.\<close>

definition matchRest :: "js_string \<Rightarrow> js_string option" where
  "matchRest s = (if s \<noteq> [] \<and> list_all (\<lambda>c. \<not> isLineTerminator c) s then Some s else None)"

text \<open>
  A greedy run of separators before the second group: the longest run is tried first, then
  each shorter one down to a single separator.
\<close>

fun matchRun :: "nat \<Rightarrow> js_string \<Rightarrow> js_string option" where
  "matchRun 0 s = None"
| "matchRun (Suc k) s =
     (case matchRest (drop (Suc k) s) of
        Some g \<Rightarrow> Some g
      | None \<Rightarrow> matchRun k s)"

text \<open>\<^verbatim>\<open>[...]+(.+)$\<close> and \<^verbatim>\<open>[...](.+)$\<close> for a class of separators.\<close>

definition matchSpaces :: "(char16 \<Rightarrow> bool) \<Rightarrow> js_string \<Rightarrow> js_string option" where
  "matchSpaces cls s = matchRun (length (takeWhile cls s)) s"

definition matchSpace :: "(char16 \<Rightarrow> bool) \<Rightarrow> js_string \<Rightarrow> js_string option" where
  "matchSpace cls s = (case s of [] \<Rightarrow> None | c # cs \<Rightarrow> if cls c then matchRest cs else None)"

text \<open>
  \<^verbatim>\<open>^(.+?)\<close> followed by the rest of the pattern \<open>cont\<close>: the lazy first group takes
  one code unit and grows by one each time the rest fails; \<open>g1\<close> is what it holds so far.
\<close>

fun matchLazy :: "(js_string \<Rightarrow> js_string option) \<Rightarrow> js_string \<Rightarrow> js_string
    \<Rightarrow> (js_string \<times> js_string) option" where
  "matchLazy cont g1 [] = None"
| "matchLazy cont g1 (c # cs) =
     (if isLineTerminator c then None
      else case cont cs of
             Some g2 \<Rightarrow> Some (g1 @ [c], g2)
           | None \<Rightarrow> matchLazy cont (g1 @ [c]) cs)"

text \<open>
  The array \<^verbatim>\<open>patterns\<close>: \<^verbatim>\<open>/^(.+?)\s+(.+)$/\<close>, the same with the ideographic space
  U+3000 added to the class, and the third with a single separator.
\<close>

definition patterns :: "(js_string \<Rightarrow> (js_string \<times> js_string) option) list" where
  "patterns =
     [matchLazy (matchSpaces isWhiteSpace) [],
      matchLazy (matchSpaces (\<lambda>c. isWhiteSpace c \<or> c = 0x3000)) [],
      matchLazy (matchSpace (\<lambda>c. c = 0x3000 \<or> isWhiteSpace c)) []]"

text \<open>
  The loop over the patterns: the first pattern whose groups are not empty and pass both
  tests decides; a pattern that fails hands over to the next one.
\<close>

fun tryPatterns :: "(js_string \<Rightarrow> (js_string \<times> js_string) option) list \<Rightarrow> js_string
    \<Rightarrow> vocab option" where
  "tryPatterns [] clean = None"
| "tryPatterns (pattern # rest) clean =
     (case pattern clean of
        None \<Rightarrow> tryPatterns rest clean
      | Some (g1, g2) \<Rightarrow>
          if g1 \<noteq> [] \<and> g2 \<noteq> []
          then let part1 = trim g1;
                   part2 = trim g2;
                   hasEnglish = test_class isLatin part1;
                   hasJapanese = test_class isJapanese part2
               in if hasEnglish \<and> hasJapanese
                  then Some \<lparr>english = part1, japanese = part2\<rparr>
                  else tryPatterns rest clean
          else tryPatterns rest clean)"

definition parseVocabulary_v1 :: "js_string \<Rightarrow> vocab option" where
  "parseVocabulary_v1 text = tryPatterns patterns (cleanText text)"

text \<open>
  The second \<^verbatim>\<open>parseVocabulary\<close> (the serverless handler that supports multi-word
  phrases): split at the first Japanese code unit, validate both parts, log the outcome.
\<close>

definition parseVocabulary_v2 :: "js_string \<Rightarrow> world \<Rightarrow> js_error + (vocab option \<times> world)" where
  "parseVocabulary_v2 text w =
     (let clean = cleanText text;
          japaneseStartMatch = match_class isJapanese clean
      in if japaneseStartMatch = None
         then Inr (None, console_log (msg_no_japanese clean) w)
         else
           case index_of japaneseStartMatch of
             Inl e \<Rightarrow> Inl e
           | Inr japaneseStartIndex \<Rightarrow>
               let englishPart = trim (substring clean 0 japaneseStartIndex);
                   japanesePart = trim (substring_from clean japaneseStartIndex);
                   hasEnglish = test_class isLatin englishPart;
                   hasJapanese = test_class isJapanese japanesePart
               in if hasEnglish \<and> hasJapanese \<and> englishPart \<noteq> [] \<and> japanesePart \<noteq> []
                  then Inr (Some \<lparr>english = englishPart, japanese = japanesePart\<rparr>,
                            console_log (msg_parsed englishPart japanesePart) w)
                  else Inr (None, console_log (msg_invalid englishPart japanesePart) w))"

text \<open>
  The third \<^verbatim>\<open>parseVocabulary\<close> (the polling server): the Latin letter is looked for
  in the whole cleaned text, and nothing is logged.
\<close>

definition parseVocabulary_v3 :: "js_string \<Rightarrow> js_error + vocab option" where
  "parseVocabulary_v3 text =
     (let clean = cleanText text;
          hasEnglish = test_class isLatin clean;
          hasJapanese = test_class isJapanese clean
      in if \<not> hasEnglish \<or> \<not> hasJapanese then Inr None
         else
           let japaneseMatch = match_class isJapanese clean
           in if japaneseMatch = None then Inr None
              else
                case index_of japaneseMatch of
                  Inl e \<Rightarrow> Inl e
                | Inr japaneseStart \<Rightarrow>
                    let english = trim (substring clean 0 japaneseStart);
                        japanese = trim (substring_from clean japaneseStart)
                    in if english \<noteq> [] \<and> japanese \<noteq> []
                       then Inr (Some \<lparr>english = english, japanese = japanese\<rparr>)
                       else Inr None)"

section \<open>Strings without a match\<close>


section \<open>Sample posts\<close>

text \<open>An initial state of the outside world: nothing logged, no tweet seen.\<close>

definition w0 :: world where
  "w0 = \<lparr>lastTweetId = None, console = []\<rparr>"

text \<open>The translation of the first sample pair, and the post \<^verbatim>\<open>cat\<close> with its translation.\<close>

definition shift_jp :: js_string where
  "shift_jp = [0x30B7, 0x30D5, 0x30C8, 0x306E, 0x4F5C, 0x6210]"

definition cat_jp :: js_string where
  "cat_jp = str ''cat '' @ [0x732B]"

text \<open>A numbered post: \<^verbatim>\<open>1.\<close>, a space, U+732B, a space and \<^verbatim>\<open>cat\<close>.\<close>

definition numbered_jp :: js_string where
  "numbered_jp = str ''1. '' @ [0x732B] @ str '' cat''"

section \<open>Facts about the string operations\<close>

lemma ws_not_japanese: "isWhiteSpace c \<Longrightarrow> \<not> isJapanese c"
  unfolding isWhiteSpace_def isJapanese_def by (auto simp: word_le_nat_alt)

lemma ws_not_latin: "isWhiteSpace c \<Longrightarrow> \<not> isLatin c"
  unfolding isWhiteSpace_def isLatin_def by (auto simp: word_le_nat_alt)

lemma filter_dropWhile_ws:
  "(\<And>c. isWhiteSpace c \<Longrightarrow> \<not> P c) \<Longrightarrow> filter P (dropWhile isWhiteSpace s) = filter P s"
  by (induction s) auto

lemma filter_trim: "(\<And>c. isWhiteSpace c \<Longrightarrow> \<not> P c) \<Longrightarrow> filter P (trim s) = filter P s"
proof -
  assume h: "\<And>c. isWhiteSpace c \<Longrightarrow> \<not> P c"
  have "filter P (trim s) = rev (filter P (dropWhile isWhiteSpace (rev (dropWhile isWhiteSpace s))))"
    by (simp add: trim_def rev_filter)
  also have "\<dots> = rev (filter P (rev (dropWhile isWhiteSpace s)))"
    using h by (simp add: filter_dropWhile_ws)
  also have "\<dots> = filter P s"
    using h by (simp add: rev_filter filter_dropWhile_ws)
  finally show ?thesis .
qed

lemma list_ex_filter: "list_ex P s \<longleftrightarrow> filter P s \<noteq> []"
  by (induction s) auto

lemma list_ex_trim: "(\<And>c. isWhiteSpace c \<Longrightarrow> \<not> P c) \<Longrightarrow> list_ex P (trim s) = list_ex P s"
  by (simp add: list_ex_filter filter_trim)

lemma set_trim: "set (trim s) \<subseteq> set s"
proof -
  have "set (trim s) \<subseteq> set (dropWhile isWhiteSpace s)"
    unfolding trim_def using set_dropWhileD by fastforce
  also have "\<dots> \<subseteq> set s" using set_dropWhileD by fastforce
  finally show ?thesis .
qed

lemma trim_Cons: "\<not> isWhiteSpace c \<Longrightarrow> trim (c # cs) = c # rev (dropWhile isWhiteSpace (rev cs))"
  by (simp add: trim_def dropWhile_append)

lemma trim_idem: "trim (trim s) = trim s"
proof (cases "dropWhile isWhiteSpace s")
  case Nil
  show ?thesis unfolding trim_def Nil by simp
next
  case (Cons c cs)
  then have c: "\<not> isWhiteSpace c" using hd_dropWhile[of isWhiteSpace s] by auto
  have t: "trim s = c # rev (dropWhile isWhiteSpace (rev cs))"
    using Cons c by (simp add: trim_def dropWhile_append)
  show ?thesis unfolding t using c by (simp add: trim_Cons dropWhile_idem)
qed


lemma match_class_eq:
  "match_class P s = (if list_ex P s then Some (length (takeWhile (\<lambda>c. \<not> P c) s)) else None)"
  by (induction s) auto

lemma set_replace_g: "set (replace_g m s) \<subseteq> set s"
proof (induction m s rule: replace_g.induct)
  case (1 m)
  then show ?case by simp
next
  case (2 m c cs)
  show ?case
  proof (cases "m (c # cs)")
    case None
    then show ?thesis using 2(1) by auto
  next
    case (Some n)
    show ?thesis
    proof (cases "n = 0")
      case True
      then show ?thesis using Some 2(2) by auto
    next
      case False
      have "set (replace_g m (drop n (c # cs))) \<subseteq> set (drop n (c # cs))"
        using 2(3)[OF Some False] .
      also have "\<dots> \<subseteq> set (c # cs)" by (rule set_drop_subset)
      finally show ?thesis using Some False by simp
    qed
  qed
qed



lemma set_stripText: "set (stripText t) \<subseteq> set t"
  unfolding stripText_def using set_replace_g by (meson subset_trans)

lemma set_cleanText: "set (cleanText t) \<subseteq> set t"
  unfolding cleanText_def using set_trim set_stripText by (meson subset_trans)

section \<open>The shape of the result\<close>

lemma dropWhile_japanese:
  "list_ex isJapanese s \<Longrightarrow> \<exists>c cs. dropWhile (\<lambda>c. \<not> isJapanese c) s = c # cs \<and> isJapanese c"
  by (induction s) auto

lemma trim_japanese_tail:
  assumes "list_ex isJapanese s"
  shows "\<exists>c cs. trim (dropWhile (\<lambda>c. \<not> isJapanese c) s) = c # cs \<and> isJapanese c"
proof -
  obtain c cs where d: "dropWhile (\<lambda>c. \<not> isJapanese c) s = c # cs" and c: "isJapanese c"
    using dropWhile_japanese[OF assms] by blast
  have "\<not> isWhiteSpace c" using c ws_not_japanese by blast
  then show ?thesis using c d by (simp add: trim_Cons)
qed

lemma substring_takeWhile: "substring s 0 (length (takeWhile P s)) = takeWhile P s"
  by (simp add: substring_def takeWhile_eq_take[symmetric])

lemma substring_from_dropWhile: "substring_from s (length (takeWhile P s)) = dropWhile P s"
  by (simp add: substring_from_def dropWhile_eq_drop[symmetric])

lemma v2_no_japanese:
  "\<not> list_ex isJapanese (cleanText t) \<Longrightarrow>
   parseVocabulary_v2 t w = Inr (None, console_log (msg_no_japanese (cleanText t)) w)"
  by (simp add: parseVocabulary_v2_def match_class_eq Let_def)

lemma v2_japanese:
  assumes "list_ex isJapanese (cleanText t)"
  shows "parseVocabulary_v2 t w =
    (let e = trim (takeWhile (\<lambda>c. \<not> isJapanese c) (cleanText t));
         j = trim (dropWhile (\<lambda>c. \<not> isJapanese c) (cleanText t))
     in if list_ex isLatin e
        then Inr (Some \<lparr>english = e, japanese = j\<rparr>, console_log (msg_parsed e j) w)
        else Inr (None, console_log (msg_invalid e j) w))"
proof -
  let ?c = "cleanText t"
  let ?i = "length (takeWhile (\<lambda>c. \<not> isJapanese c) ?c)"
  have m: "match_class isJapanese ?c = Some ?i" using assms by (simp add: match_class_eq)
  obtain c cs where j: "trim (dropWhile (\<lambda>c. \<not> isJapanese c) ?c) = c # cs" and c: "isJapanese c"
    using trim_japanese_tail[OF assms] by blast
  have e: "list_ex isLatin e \<Longrightarrow> e \<noteq> []" for e by auto
  show ?thesis
    using j c e
    by (auto simp: parseVocabulary_v2_def Let_def m index_of_def test_class_def
        substring_takeWhile substring_from_dropWhile)
qed

lemma v2_Some_iff:
  "parseVocabulary_v2 t w = Inr (Some p, w') \<longleftrightarrow>
     list_ex isJapanese (cleanText t)
     \<and> list_ex isLatin (takeWhile (\<lambda>c. \<not> isJapanese c) (cleanText t))
     \<and> p = \<lparr>english = trim (takeWhile (\<lambda>c. \<not> isJapanese c) (cleanText t)),
             japanese = trim (dropWhile (\<lambda>c. \<not> isJapanese c) (cleanText t))\<rparr>
     \<and> w' = console_log (msg_parsed (english p) (japanese p)) w"
proof (cases "list_ex isJapanese (cleanText t)")
  case False
  then show ?thesis by (simp add: v2_no_japanese)
next
  case True
  show ?thesis
    unfolding v2_japanese[OF True] Let_def
    using True by (auto simp: list_ex_trim ws_not_latin)
qed

lemma v2_total: "\<exists>r line. \<forall>w. parseVocabulary_v2 t w = Inr (r, console_log line w)"
proof (cases "list_ex isJapanese (cleanText t)")
  case False
  then show ?thesis using v2_no_japanese by blast
next
  case True
  show ?thesis unfolding v2_japanese[OF True] Let_def by (auto split: if_splits)
qed

section \<open>What a second preprocessing pass can still find\<close>






















lemma trim_around_japanese:
  assumes l: "list_ex isLatin xs" and c: "isJapanese c"
  shows "trim (xs @ c # ys) = dropWhile isWhiteSpace xs @ c # rev (dropWhile isWhiteSpace (rev ys))"
proof -
  obtain x where x: "x \<in> set xs" "\<not> isWhiteSpace x"
    using l ws_not_latin by (auto simp: list_ex_iff)
  have d: "dropWhile isWhiteSpace (xs @ c # ys) = dropWhile isWhiteSpace xs @ c # ys"
    using x by (rule dropWhile_append1)
  have nc: "\<not> isWhiteSpace c" using c ws_not_japanese by blast
  show ?thesis
    unfolding trim_def d using nc by (simp add: dropWhile_append3)
qed

lemma trim_dropWhile_ws: "trim (dropWhile isWhiteSpace s) = trim s"
  by (simp add: trim_def dropWhile_idem)


section \<open>Properties of the extractor\<close>

text \<open>
  The second \<^verbatim>\<open>parseVocabulary\<close> splits where the first Japanese code unit of the cleaned
  text stands and nowhere else, so a term of several words stays whole. For the post
  \<^verbatim>\<open>make a shift\<close> followed by a space and its six Japanese code units it returns the
  whole phrase as the term.
\<close>

lemma v2_splits_at_first_japanese:
  assumes "parseVocabulary_v2 text w = Inr (Some p, w')"
  shows "english p = trim (takeWhile (\<lambda>c. \<not> isJapanese c) (cleanText text))
         \<and> japanese p = trim (dropWhile (\<lambda>c. \<not> isJapanese c) (cleanText text))"
  using assms by (simp add: v2_Some_iff)

theorem extract_make_a_shift:
  "parseVocabulary_v2 (str ''make a shift '' @ shift_jp) w =
     Inr (Some \<lparr>english = str ''make a shift'', japanese = shift_jp\<rparr>,
          console_log (msg_parsed (str ''make a shift'') shift_jp) w)"
  by code_simp

text \<open>
  Claim C4. The post \<^verbatim>\<open>make a shift\<close> followed by a space and its six Japanese code
  units is to give the term \<^verbatim>\<open>make a shift\<close> and the Japanese run as translation,
  the split being at the first Japanese code unit and not at a space. The first
  \<^verbatim>\<open>parseVocabulary\<close> does not: its lazy first group ends at the first space, so the
  term is \<^verbatim>\<open>make\<close> and the translation starts with \<^verbatim>\<open>a shift\<close>.
\<close>

theorem v1_make_a_shift:
  "parseVocabulary_v1 (str ''make a shift '' @ shift_jp)
     = Some \<lparr>english = str ''make'', japanese = str ''a shift '' @ shift_jp\<rparr>"
  by code_simp

text \<open>
  Claim C3. A post without any code unit in the Japanese ranges yields absence, whatever
  the preprocessing removes; so do a post of spaces only and a post that is text and a URL.
\<close>

theorem extract_no_japanese_absent:
  "\<not> test_class isJapanese text \<Longrightarrow>
   parseVocabulary_v2 text w = Inr (None, console_log (msg_no_japanese (cleanText text)) w)"
proof -
  assume h: "\<not> test_class isJapanese text"
  have "\<not> list_ex isJapanese (cleanText text)"
    using h set_cleanText[of "text"] by (auto simp: test_class_def list_ex_iff)
  then show ?thesis by (rule v2_no_japanese)
qed

theorem extract_no_japanese_absent_witness:
  "\<not> test_class isJapanese (str ''   '')
   \<and> parseVocabulary_v2 (str ''   '') w0 = Inr (None, console_log (msg_no_japanese []) w0)
   \<and> \<not> test_class isJapanese (str ''check this out http://x.co/abc'')
   \<and> parseVocabulary_v2 (str ''check this out http://x.co/abc'') w0
       = Inr (None, console_log (msg_no_japanese (str ''check this out'')) w0)"
proof -
  have h1: "\<not> test_class isJapanese (str ''   '')" by code_simp
  have c1: "cleanText (str ''   '') = []" by code_simp
  have h2: "\<not> test_class isJapanese (str ''check this out http://x.co/abc'')" by code_simp
  have c2: "cleanText (str ''check this out http://x.co/abc'') = str ''check this out''"
    by code_simp
  show ?thesis
    using h1 h2 extract_no_japanese_absent[OF h1, of w0] extract_no_japanese_absent[OF h2, of w0]
    unfolding c1 c2 by blast
qed

text \<open>
  The second \<^verbatim>\<open>parseVocabulary\<close> keeps the invariant of a pair: whenever it returns one,
  the term holds a Latin letter, the translation holds a Japanese code unit, and neither
  is empty after trimming. When the part of the cleaned text before its first Japanese
  code unit has no Latin letter, it returns absence.
\<close>

theorem extract_pair_valid:
  "(parseVocabulary_v2 text w = Inr (Some p, w') \<longrightarrow>
      test_class isLatin (english p) \<and> test_class isJapanese (japanese p)
      \<and> trim (english p) \<noteq> [] \<and> trim (japanese p) \<noteq> [])
   \<and> (\<not> test_class isLatin (takeWhile (\<lambda>c. \<not> isJapanese c) (cleanText text)) \<longrightarrow>
        (\<exists>u. parseVocabulary_v2 text w = Inr (None, u)))"
proof (intro conjI impI)
  assume a: "parseVocabulary_v2 text w = Inr (Some p, w')"
  let ?c = "cleanText text"
  from a have j: "list_ex isJapanese ?c"
    and l: "list_ex isLatin (takeWhile (\<lambda>c. \<not> isJapanese c) ?c)"
    and p: "p = \<lparr>english = trim (takeWhile (\<lambda>c. \<not> isJapanese c) ?c),
                  japanese = trim (dropWhile (\<lambda>c. \<not> isJapanese c) ?c)\<rparr>"
    by (simp_all add: v2_Some_iff)
  have e: "list_ex isLatin (english p)"
    using l by (simp add: p list_ex_trim ws_not_latin)
  obtain c cs where t: "japanese p = c # cs" and c: "isJapanese c"
    using trim_japanese_tail[OF j] by (auto simp: p)
  show "test_class isLatin (english p)" using e by (simp add: test_class_def)
  show "test_class isJapanese (japanese p)" using t c by (simp add: test_class_def)
  show "trim (english p) \<noteq> []" using e by (auto simp: p trim_idem)
  have "trim (japanese p) = japanese p" by (simp add: p trim_idem)
  then show "trim (japanese p) \<noteq> []" using t by simp
next
  assume n: "\<not> test_class isLatin (takeWhile (\<lambda>c. \<not> isJapanese c) (cleanText text))"
  obtain r line where r: "parseVocabulary_v2 text w = Inr (r, console_log line w)"
    using v2_total by blast
  have "r = None"
  proof (cases r)
    case None
    then show ?thesis .
  next
    case (Some q)
    then show ?thesis using r n by (simp add: v2_Some_iff test_class_def)
  qed
  then show "\<exists>u. parseVocabulary_v2 text w = Inr (None, u)" using r by blast
qed

theorem extract_pair_valid_witness:
  "parseVocabulary_v2 cat_jp w0
      = Inr (Some \<lparr>english = str ''cat'', japanese = [0x732B]\<rparr>,
             console_log (msg_parsed (str ''cat'') [0x732B]) w0)
   \<and> test_class isLatin (str ''cat'') \<and> test_class isJapanese [0x732B]
   \<and> trim (str ''cat'') \<noteq> [] \<and> trim [0x732B] \<noteq> []
   \<and> \<not> test_class isLatin (takeWhile (\<lambda>c. \<not> isJapanese c) (cleanText ([0x3002, 0x732B, 0x61])))
   \<and> (\<exists>u. parseVocabulary_v2 [0x3002, 0x732B, 0x61] w0 = Inr (None, u))"
proof -
  have a: "parseVocabulary_v2 cat_jp w0
      = Inr (Some \<lparr>english = str ''cat'', japanese = [0x732B]\<rparr>,
             console_log (msg_parsed (str ''cat'') [0x732B]) w0)"
    by code_simp
  have n: "\<not> test_class isLatin (takeWhile (\<lambda>c. \<not> isJapanese c) (cleanText ([0x3002, 0x732B, 0x61])))"
    by code_simp
  show ?thesis
    using a n extract_pair_valid[of cat_jp w0 "\<lparr>english = str ''cat'', japanese = [0x732B]\<rparr>"
        "console_log (msg_parsed (str ''cat'') [0x732B]) w0"]
      extract_pair_valid[of "[0x3002, 0x732B, 0x61]" w0]
    by simp
qed

text \<open>
  Claim C2. Whenever a pair is returned, its term is to hold a Latin letter, and a post
  whose candidate term has none is to yield absence. The third \<^verbatim>\<open>parseVocabulary\<close>
  looks for the Latin letter in the whole cleaned text and not in the term: for the
  numbered post it returns the term \<^verbatim>\<open>1.\<close>, which holds no Latin letter, where the
  second one returns absence.
\<close>

theorem v3_pair_without_latin_term:
  "parseVocabulary_v3 numbered_jp
     = Inr (Some \<lparr>english = str ''1.'', japanese = [0x732B] @ str '' cat''\<rparr>)
   \<and> \<not> test_class isLatin (str ''1.'')
   \<and> parseVocabulary_v2 numbered_jp w0
     = Inr (None, console_log (msg_invalid (str ''1.'') ([0x732B] @ str '' cat'')) w0)"
  by code_simp

text \<open>So the third \<^verbatim>\<open>parseVocabulary\<close> returns a pair whose term holds no Latin letter.\<close>

theorem v3_pair_without_latin_term_witness:
  "\<exists>p. parseVocabulary_v3 numbered_jp = Inr (Some p) \<and> \<not> test_class isLatin (english p)"
  using v3_pair_without_latin_term by simp

text \<open>
  Claim C6. The extractor is total and never raises: on every string it returns normally,
  with a pair or with absence. The read of \<^verbatim>\<open>index\<close> is behind the test for
  \<^verbatim>\<open>null\<close>, and the three global replacements terminate.
\<close>

theorem extract_total:
  "\<exists>r w'. parseVocabulary_v2 text w = Inr (r, w')"
  using v2_total by blast

text \<open>
  Claim C8. Whenever the extractor returns a pair, the term holds no Japanese code unit,
  and the Japanese code units of the cleaned text are exactly those of the translation, in
  the same order.
\<close>

theorem extract_term_has_no_japanese:
  assumes "parseVocabulary_v2 text w = Inr (Some p, w')"
  shows "\<not> test_class isJapanese (english p)
         \<and> filter isJapanese (japanese p) = filter isJapanese (cleanText text)"
proof -
  let ?c = "cleanText text"
  let ?nj = "\<lambda>c. \<not> isJapanese c"
  from assms have p: "p = \<lparr>english = trim (takeWhile ?nj ?c), japanese = trim (dropWhile ?nj ?c)\<rparr>"
    by (simp add: v2_Some_iff)
  have tk: "filter isJapanese (takeWhile ?nj ?c) = []"
    by (auto simp: filter_empty_conv dest: set_takeWhileD)
  have "filter isJapanese (english p) = []"
    by (simp add: p filter_trim ws_not_japanese tk)
  then have 1: "\<not> test_class isJapanese (english p)"
    by (simp add: test_class_def list_ex_filter)
  have "filter isJapanese ?c = filter isJapanese (takeWhile ?nj ?c @ dropWhile ?nj ?c)"
    by simp
  also have "\<dots> = filter isJapanese (dropWhile ?nj ?c)"
    unfolding filter_append tk by simp
  finally have 2: "filter isJapanese (japanese p) = filter isJapanese ?c"
    by (simp add: p filter_trim ws_not_japanese)
  show ?thesis using 1 2 by blast
qed

theorem extract_term_has_no_japanese_witness:
  "parseVocabulary_v2 cat_jp w0
      = Inr (Some \<lparr>english = str ''cat'', japanese = [0x732B]\<rparr>,
             console_log (msg_parsed (str ''cat'') [0x732B]) w0)
   \<and> \<not> test_class isJapanese (str ''cat'')
   \<and> filter isJapanese [0x732B] = filter isJapanese (cleanText cat_jp)"
proof -
  have a: "parseVocabulary_v2 cat_jp w0
      = Inr (Some \<lparr>english = str ''cat'', japanese = [0x732B]\<rparr>,
             console_log (msg_parsed (str ''cat'') [0x732B]) w0)"
    by code_simp
  show ?thesis using a extract_term_has_no_japanese[OF a] by simp
qed



text \<open>
  Claim C10. Whenever the second \<^verbatim>\<open>parseVocabulary\<close> returns a pair, the third one
  returns the same pair for the same post.
\<close>

theorem v2_pair_implies_v3_pair:
  assumes "parseVocabulary_v2 text w = Inr (Some p, w')"
  shows "parseVocabulary_v3 text = Inr (Some p)"
proof -
  let ?c = "cleanText text"
  let ?nj = "\<lambda>c. \<not> isJapanese c"
  from assms have j: "list_ex isJapanese ?c"
    and l: "list_ex isLatin (takeWhile ?nj ?c)"
    and p: "p = \<lparr>english = trim (takeWhile ?nj ?c), japanese = trim (dropWhile ?nj ?c)\<rparr>"
    by (simp_all add: v2_Some_iff)
  have l': "list_ex isLatin ?c"
    using l by (auto simp: list_ex_iff dest: set_takeWhileD)
  have m: "match_class isJapanese ?c = Some (length (takeWhile ?nj ?c))"
    using j by (simp add: match_class_eq)
  have e: "trim (takeWhile ?nj ?c) \<noteq> []"
    using l list_ex_trim[of isLatin "takeWhile ?nj ?c"] ws_not_latin by auto
  have t: "trim (dropWhile ?nj ?c) \<noteq> []"
    using trim_japanese_tail[OF j] by auto
  show ?thesis
    using j l' e t
    by (simp add: parseVocabulary_v3_def Let_def m index_of_def test_class_def
        substring_takeWhile substring_from_dropWhile p)
qed

theorem v2_pair_implies_v3_pair_witness:
  "parseVocabulary_v2 cat_jp w0
      = Inr (Some \<lparr>english = str ''cat'', japanese = [0x732B]\<rparr>,
             console_log (msg_parsed (str ''cat'') [0x732B]) w0)
   \<and> parseVocabulary_v3 cat_jp = Inr (Some \<lparr>english = str ''cat'', japanese = [0x732B]\<rparr>)"
proof -
  have a: "parseVocabulary_v2 cat_jp w0
      = Inr (Some \<lparr>english = str ''cat'', japanese = [0x732B]\<rparr>,
             console_log (msg_parsed (str ''cat'') [0x732B]) w0)"
    by code_simp
  show ?thesis using a v2_pair_implies_v3_pair[OF a] by simp
qed



text \<open>
  Claim C1, as amended. When the post, after the removal of URLs, mentions and hashtags,
  has the form \<open>latinTerm @ c # rest\<close>, where \<open>latinTerm\<close> holds a Latin letter and \<open>c\<close>
  is the first Japanese code unit, the extractor returns the pair of the trimmed
  \<open>latinTerm\<close> and the trimmed \<open>c # rest\<close>. This covers every post of that form in which
  the three removals find nothing.
\<close>

theorem extract_split_at_first_japanese:
  assumes s: "stripText text = latinTerm @ c # rest"
    and l: "test_class isLatin latinTerm"
    and c: "isJapanese c"
    and n: "\<not> test_class isJapanese latinTerm"
  shows "parseVocabulary_v2 text w =
           Inr (Some \<lparr>english = trim latinTerm, japanese = trim (c # rest)\<rparr>,
                console_log (msg_parsed (trim latinTerm) (trim (c # rest))) w)"
proof -
  let ?nj = "\<lambda>c. \<not> isJapanese c"
  let ?d = "dropWhile isWhiteSpace latinTerm"
  let ?r = "rev (dropWhile isWhiteSpace (rev rest))"
  have l': "list_ex isLatin latinTerm" using l by (simp add: test_class_def)
  have nc: "\<not> isWhiteSpace c" using c ws_not_japanese by blast
  have cl: "cleanText text = ?d @ c # ?r"
    unfolding cleanText_def s using l' c by (rule trim_around_japanese)
  have nd: "\<forall>x\<in>set ?d. ?nj x"
    using n set_dropWhileD[of _ isWhiteSpace latinTerm] by (auto simp: test_class_def list_ex_iff)
  have tk: "takeWhile ?nj (cleanText text) = ?d"
    unfolding cl using nd c by (simp add: takeWhile_append2)
  have dr: "dropWhile ?nj (cleanText text) = c # ?r"
    unfolding cl using nd c by (simp add: dropWhile_append2)
  have j: "list_ex isJapanese (cleanText text)"
    unfolding cl using c by simp
  have ld: "list_ex isLatin ?d"
    using l' by (simp add: list_ex_filter filter_dropWhile_ws ws_not_latin)
  have e: "trim ?d = trim latinTerm" by (rule trim_dropWhile_ws)
  have t: "trim (c # ?r) = trim (c # rest)"
    using nc by (simp add: trim_Cons dropWhile_idem)
  show ?thesis
    unfolding v2_Some_iff tk dr e t using j ld by simp
qed

theorem extract_split_at_first_japanese_witness:
  "stripText cat_jp = str ''cat '' @ 0x732B # []
   \<and> test_class isLatin (str ''cat '') \<and> isJapanese 0x732B \<and> \<not> test_class isJapanese (str ''cat '')
   \<and> parseVocabulary_v2 cat_jp w0 =
        Inr (Some \<lparr>english = trim (str ''cat ''), japanese = trim (0x732B # [])\<rparr>,
             console_log (msg_parsed (trim (str ''cat '')) (trim (0x732B # []))) w0)
   \<and> trim (str ''cat '') = str ''cat'' \<and> trim (0x732B # []) = [0x732B]"
proof -
  have s: "stripText cat_jp = str ''cat '' @ 0x732B # []" by code_simp
  have l: "test_class isLatin (str ''cat '')" by code_simp
  have c: "isJapanese 0x732B" by code_simp
  have n: "\<not> test_class isJapanese (str ''cat '')" by code_simp
  have t: "trim (str ''cat '') = str ''cat'' \<and> trim (0x732B # []) = [0x732B]" by code_simp
  show ?thesis
    using s l c n t extract_split_at_first_japanese[OF s l c n, of w0] by blast
qed

text \<open>
  The post \<^verbatim>\<open>#vocab @friend\<close> followed by a space and U+6C34 has the form of the claim
  as stated, with Latin letters before the first Japanese code unit; the removals leave
  nothing of the term, and the result is absence.
\<close>

theorem extract_mention_term_absent:
  "test_class isLatin (str ''#vocab @friend '') \<and> isJapanese 0x6C34
   \<and> \<not> test_class isJapanese (str ''#vocab @friend '')
   \<and> parseVocabulary_v2 (str ''#vocab @friend '' @ 0x6C34 # []) w0
       = Inr (None, console_log (msg_invalid [] [0x6C34]) w0)"
  by code_simp




text \<open>
  The third \<^verbatim>\<open>parseVocabulary\<close> also returns a term without a Latin letter for an
  ideographic full stop before the translation and a Latin letter behind it.
\<close>

lemma v3_term_without_latin:
  "parseVocabulary_v3 [0x3002, 0x732B, 0x61] = Inr (Some \<lparr>english = [0x3002], japanese = [0x732B, 0x61]\<rparr>)"
  by code_simp

end
